theory Spec2Isabelle
  imports Complex_Main "HOL-Library.Sublist"
begin

section \<open>JavaScript values\<close>

text \<open>
  The two handlers work on values produced by \<^verbatim>\<open>JSON.parse\<close> and \<^verbatim>\<open>response.json()\<close>,
  so a value is a JSON value or \<^verbatim>\<open>undefined\<close>. Numbers are idealised as rationals
  (the handlers never calculate with them); an object is the list of its own
  properties in insertion order.
\<close>

datatype jsval =
    JUndefined
  | JNull
  | JBool bool
  | JNum rat
  | JStr string
  | JArr "jsval list"
  | JObj "(string \<times> jsval) list"

text \<open>ToBoolean, as used by \<^verbatim>\<open>!x\<close>, \<^verbatim>\<open>x && y\<close>, \<^verbatim>\<open>x || y\<close> and \<^verbatim>\<open>if (x)\<close>.\<close>

fun truthy :: "jsval \<Rightarrow> bool" where
  "truthy JUndefined = False"
| "truthy JNull = False"
| "truthy (JBool b) = b"
| "truthy (JNum n) = (n \<noteq> 0)"
| "truthy (JStr s) = (s \<noteq> [])"
| "truthy (JArr xs) = True"
| "truthy (JObj kvs) = True"

definition nullish :: "jsval \<Rightarrow> bool" where
  "nullish v = (v = JUndefined \<or> v = JNull)"

text \<open>
  An exception object, as far as the handlers look at it: \<^verbatim>\<open>error.message\<close> and
  \<^verbatim>\<open>error.stack\<close>.
\<close>

datatype exn = Exn (message: string) (stack: string)

text \<open>
  A string that the source either writes as a literal or obtains from
  \<^verbatim>\<open>JSON.stringify\<close>; the serialisation is kept symbolic, so \<open>JSON_stringify v\<close> stands
  for the text of \<open>v\<close> (in which a property whose value is \<^verbatim>\<open>undefined\<close> does not
  appear).
\<close>

datatype jstext = Literal string | JSON_stringify jsval

record request =
  url :: string
  req_method :: string
  req_headers :: "(string \<times> string) list"
  req_body :: "jstext option"

record response =
  statusCode :: nat
  headers :: "(string \<times> string) list"
  body :: jstext

text \<open>
  The event of the hosting platform: the HTTP verb, the raw body (a string or
  \<^verbatim>\<open>null\<close>) and the query parameters (an object of strings or \<^verbatim>\<open>null\<close>).
\<close>

record event =
  httpMethod :: string
  ev_body :: "string option"
  queryStringParameters :: "(string \<times> string) list option"

text \<open>
  Everything outside the repository that a handler reads or calls:
  \<^verbatim>\<open>process.env\<close>, \<^verbatim>\<open>JSON.parse\<close>, \<^verbatim>\<open>fetch\<close> followed by \<^verbatim>\<open>response.json()\<close>
  (the outer \<open>Inl\<close> is a rejected \<^verbatim>\<open>fetch\<close>, the inner one a rejected
  \<^verbatim>\<open>response.json()\<close>), the engine's rendering of numbers, the \<^verbatim>\<open>TypeError\<close> the
  engine raises for a described fault, the stack it records for a new \<^verbatim>\<open>Error\<close>, and
  the clock read by \<^verbatim>\<open>new Date().toISOString()\<close>.
\<close>

record world =
  env :: "string \<Rightarrow> string option"
  JSON_parse :: "string \<Rightarrow> exn + jsval"
  fetch :: "request \<Rightarrow> exn + (exn + jsval)"
  number_to_string :: "rat \<Rightarrow> string"
  TypeError :: "string \<Rightarrow> exn"
  capture_stack :: "string \<Rightarrow> string"
  toISOString_now :: string

text \<open>\<^verbatim>\<open>!value\<close> for a value of \<^verbatim>\<open>process.env\<close>: unset or the empty string.\<close>

definition unset :: "string option \<Rightarrow> bool" where
  "unset v = (v = None \<or> v = Some [])"

subsection \<open>Effects and exceptions\<close>

text \<open>
  A computation returns a value or throws, and leaves the list of what it did to the
  outside: the requests it sent and the lines it wrote to the console.
\<close>

datatype effect =
    Fetch request
  | Console_warn string
  | Console_error string exn

type_synonym 'a io = "(exn + 'a) \<times> effect list"

definition io_return :: "'a \<Rightarrow> 'a io" where
  "io_return x = (Inr x, [])"

definition io_throw :: "exn \<Rightarrow> 'a io" where
  "io_throw e = (Inl e, [])"

definition io_lift :: "exn + 'a \<Rightarrow> 'a io" where
  "io_lift r = (r, [])"

definition io_bind :: "'a io \<Rightarrow> ('a \<Rightarrow> 'b io) \<Rightarrow> 'b io" where
  "io_bind m f =
     (case m of
        (Inl e, t) \<Rightarrow> (Inl e, t)
      | (Inr x, t) \<Rightarrow> (case f x of (r, t') \<Rightarrow> (r, t @ t')))"

definition io_catch :: "'a io \<Rightarrow> (exn \<Rightarrow> 'a io) \<Rightarrow> 'a io" where
  "io_catch m h =
     (case m of
        (Inr x, t) \<Rightarrow> (Inr x, t)
      | (Inl e, t) \<Rightarrow> (case h e of (r, t') \<Rightarrow> (r, t @ t')))"

definition do_fetch :: "world \<Rightarrow> request \<Rightarrow> (exn + jsval) io" where
  "do_fetch w req = (fetch w req, [Fetch req])"

definition bindE :: "exn + 'a \<Rightarrow> ('a \<Rightarrow> exn + 'b) \<Rightarrow> exn + 'b" where
  "bindE m f = (case m of Inl e \<Rightarrow> Inl e | Inr x \<Rightarrow> f x)"

subsection \<open>Property reads\<close>

text \<open>
  The name of an array index: decimal digits without a leading zero.
\<close>

fun digits_value :: "string \<Rightarrow> nat \<Rightarrow> nat option" where
  "digits_value [] acc = Some acc"
| "digits_value (c # cs) acc =
     (if 48 \<le> (of_char c :: nat) \<and> (of_char c :: nat) \<le> 57
      then digits_value cs (10 * acc + (of_char c - 48))
      else None)"

definition array_index :: "string \<Rightarrow> nat option" where
  "array_index name =
     (case name of
        [] \<Rightarrow> None
      | c # cs \<Rightarrow> if c = CHR ''0'' \<and> cs \<noteq> [] then None else digits_value name 0)"

text \<open>
  \<^verbatim>\<open>v.name\<close> and \<^verbatim>\<open>v[0]\<close> on a JSON value. Reading a property of \<^verbatim>\<open>undefined\<close> or
  \<^verbatim>\<open>null\<close> raises a \<^verbatim>\<open>TypeError\<close>; an object gives its own property or \<^verbatim>\<open>undefined\<close>;
  arrays and strings have \<^verbatim>\<open>length\<close> and their indices; every other read gives
  \<^verbatim>\<open>undefined\<close>. The names the handlers read are data fields, never a method of a
  built-in prototype (the one method call, \<^verbatim>\<open>includes\<close>, is \<open>call_includes\<close> below).
  A string is its list of bytes, so its length and indices are those of JavaScript
  for ASCII text.
\<close>

definition get :: "world \<Rightarrow> jsval \<Rightarrow> string \<Rightarrow> exn + jsval" where
  "get w v name =
     (case v of
        JUndefined \<Rightarrow> Inl (TypeError w (''Cannot read properties of undefined: '' @ name))
      | JNull \<Rightarrow> Inl (TypeError w (''Cannot read properties of null: '' @ name))
      | JObj kvs \<Rightarrow> Inr (case map_of kvs name of None \<Rightarrow> JUndefined | Some x \<Rightarrow> x)
      | JArr xs \<Rightarrow>
          Inr (if name = ''length'' then JNum (of_nat (length xs))
               else case array_index name of
                      None \<Rightarrow> JUndefined
                    | Some i \<Rightarrow> if i < length xs then xs ! i else JUndefined)
      | JStr s \<Rightarrow>
          Inr (if name = ''length'' then JNum (of_nat (length s))
               else case array_index name of
                      None \<Rightarrow> JUndefined
                    | Some i \<Rightarrow> if i < length s then JStr [s ! i] else JUndefined)
      | JBool b \<Rightarrow> Inr JUndefined
      | JNum n \<Rightarrow> Inr JUndefined)"

text \<open>A destructuring pattern \<^verbatim>\<open>{ name = dflt } = v\<close>: the default replaces \<^verbatim>\<open>undefined\<close> only.\<close>

definition get_default :: "world \<Rightarrow> jsval \<Rightarrow> string \<Rightarrow> jsval \<Rightarrow> exn + jsval" where
  "get_default w v name dflt =
     bindE (get w v name) (\<lambda>x. Inr (if x = JUndefined then dflt else x))"

subsection \<open>String conversion\<close>

fun join :: "string \<Rightarrow> string list \<Rightarrow> string" where
  "join sep [] = []"
| "join sep [x] = x"
| "join sep (x # y # ys) = x @ sep @ join sep (y # ys)"

text \<open>
  ToString, as applied by a template literal and by \<^verbatim>\<open>new Error(v)\<close>. \<open>None\<close> is the
  \<^verbatim>\<open>TypeError\<close> of an object that cannot be converted: a parsed object whose own
  \<^verbatim>\<open>toString\<close> property hides the inherited method.
\<close>

fun ToString :: "(rat \<Rightarrow> string) \<Rightarrow> jsval \<Rightarrow> string option" where
  "ToString nts JUndefined = Some ''undefined''"
| "ToString nts JNull = Some ''null''"
| "ToString nts (JBool b) = Some (if b then ''true'' else ''false'')"
| "ToString nts (JNum n) = Some (nts n)"
| "ToString nts (JStr s) = Some s"
| "ToString nts (JArr xs) =
     map_option (join '','')
       (those (map (\<lambda>x. if x = JUndefined \<or> x = JNull then Some [] else ToString nts x) xs))"
| "ToString nts (JObj kvs) =
     (if ''toString'' \<in> fst ` set kvs then None else Some ''[object Object]'')"

definition to_string :: "world \<Rightarrow> jsval \<Rightarrow> exn + string" where
  "to_string w v =
     (case ToString (number_to_string w) v of
        None \<Rightarrow> Inl (TypeError w ''Cannot convert object to primitive value'')
      | Some s \<Rightarrow> Inr s)"

text \<open>\<^verbatim>\<open>new Error(msg)\<close> for a string.\<close>

definition Error :: "world \<Rightarrow> string \<Rightarrow> exn" where
  "Error w msg = Exn msg (capture_stack w msg)"

text \<open>
  \<^verbatim>\<open>throw new Error(v)\<close> for a value: the message is ToString of \<open>v\<close>, or empty when
  \<open>v\<close> is \<^verbatim>\<open>undefined\<close>; a failing conversion throws its own \<^verbatim>\<open>TypeError\<close> instead.
\<close>

definition throw_new_Error :: "world \<Rightarrow> jsval \<Rightarrow> 'a io" where
  "throw_new_Error w v =
     (if v = JUndefined then io_throw (Error w [])
      else case to_string w v of
             Inl e \<Rightarrow> io_throw e
           | Inr s \<Rightarrow> io_throw (Error w s))"

subsection \<open>\<^verbatim>\<open>includes\<close>\<close>

fun includes_str :: "string \<Rightarrow> string \<Rightarrow> bool" where
  "includes_str [] pat = (pat = [])"
| "includes_str (c # cs) pat = (prefix pat (c # cs) \<or> includes_str cs pat)"

text \<open>
  \<^verbatim>\<open>v.includes(pat)\<close> for a value that is neither \<^verbatim>\<open>undefined\<close> nor \<^verbatim>\<open>null\<close>: substring
  search on a string, membership on an array, and a \<^verbatim>\<open>TypeError\<close> (not a function) on
  a number, a boolean or a parsed object.
\<close>

definition call_includes :: "world \<Rightarrow> jsval \<Rightarrow> string \<Rightarrow> exn + jsval" where
  "call_includes w v pat =
     (case v of
        JStr s \<Rightarrow> Inr (JBool (includes_str s pat))
      | JArr xs \<Rightarrow> Inr (JBool (JStr pat \<in> set xs))
      | _ \<Rightarrow> Inl (TypeError w ''includes is not a function''))"

section \<open>The Creative Generator (netlify/functions/generate-creative.js)\<close>

text \<open>The static price table, in source order.\<close>

definition COSTS :: "(string \<times> rat) list" where
  "COSTS =
     [(''dall-e-3-standard'', 0.04),
      (''dall-e-3-hd'', 0.08),
      (''dall-e-3-wide'', 0.08),
      (''dall-e-3-wide-hd'', 0.12),
      (''gpt-image-mini'', 0.015),
      (''runway-video'', 0.50)]"

text \<open>\<^verbatim>\<open>COSTS[costKey]\<close>: the price, or \<^verbatim>\<open>undefined\<close> for a key the table does not have.\<close>

definition COSTS_at :: "string \<Rightarrow> jsval" where
  "COSTS_at costKey = (case map_of COSTS costKey of None \<Rightarrow> JUndefined | Some c \<Rightarrow> JNum c)"

definition creative_headers :: "(string \<times> string) list" where
  "creative_headers =
     [(''Access-Control-Allow-Origin'', ''*''),
      (''Access-Control-Allow-Headers'', ''Content-Type, Authorization''),
      (''Access-Control-Allow-Methods'', ''POST, OPTIONS''),
      (''Content-Type'', ''application/json'')]"

subsection \<open>generateImage\<close>

definition image_request :: "string \<Rightarrow> jsval \<Rightarrow> jsval \<Rightarrow> jsval \<Rightarrow> jsval \<Rightarrow> jsval \<Rightarrow> request" where
  "image_request apiKey model prompt sz quality style =
     \<lparr>url = ''https://api.openai.com/v1/images/generations'',
      req_method = ''POST'',
      req_headers =
        [(''Authorization'', ''Bearer '' @ apiKey),
         (''Content-Type'', ''application/json'')],
      req_body = Some (JSON_stringify (JObj
        [(''model'', model),
         (''prompt'', prompt),
         (''n'', JNum 1),
         (''size'', sz),
         (''quality'', quality),
         (''style'', style),
         (''response_format'', JStr ''url'')]))\<rparr>"

text \<open>
  The parameter default \<^verbatim>\<open>options = {}\<close> replaces \<^verbatim>\<open>undefined\<close> only.
  \<^verbatim>\<open>data.data[0]\<close> is read twice in the source, with the same outcome; the model
  reads it once.
\<close>

definition generateImage :: "world \<Rightarrow> jsval \<Rightarrow> jsval \<Rightarrow> jsval io" where
  "generateImage w prompt options0 =
     (let options = (if options0 = JUndefined then JObj [] else options0);
          apiKey = env w ''OPENAI_API_KEY''
      in if unset apiKey then io_throw (Error w ''OPENAI_API_KEY not configured'')
         else
           io_bind (io_lift (get_default w options ''model'' (JStr ''dall-e-3''))) (\<lambda>model.
           io_bind (io_lift (get_default w options ''size'' (JStr ''1024x1024''))) (\<lambda>size.
           io_bind (io_lift (get_default w options ''quality'' (JStr ''standard''))) (\<lambda>quality.
           io_bind (io_lift (get_default w options ''style'' (JStr ''vivid''))) (\<lambda>style.
           io_bind (do_fetch w (image_request (the apiKey) model prompt size quality style))
             (\<lambda>response.
           io_bind (io_lift response) (\<lambda>data.
           io_bind (io_lift (get w data ''error'')) (\<lambda>err.
           if truthy err
           then io_bind (io_lift (get w err ''message'')) (throw_new_Error w)
           else
             io_bind (io_lift (get w data ''data'')) (\<lambda>d.
             io_bind (io_lift (get w d ''0'')) (\<lambda>d0.
             io_bind (io_lift (get w d0 ''url'')) (\<lambda>image_url.
             io_bind (io_lift (get w d0 ''revised_prompt'')) (\<lambda>revised_prompt.
             io_return (JObj
               [(''image_url'', image_url),
                (''revised_prompt'', revised_prompt),
                (''model'', model),
                (''size'', size),
                (''quality'', quality)])))))))))))))"

subsection \<open>generateVideo\<close>

definition video_request :: "string \<Rightarrow> jsval \<Rightarrow> jsval \<Rightarrow> jsval \<Rightarrow> request" where
  "video_request apiKey model prompt duration =
     \<lparr>url = ''https://api.dev.runwayml.com/v1/text_to_video'',
      req_method = ''POST'',
      req_headers =
        [(''Authorization'', ''Bearer '' @ apiKey),
         (''Content-Type'', ''application/json''),
         (''X-Runway-Version'', ''2024-11-06'')],
      req_body = Some (JSON_stringify (JObj
        [(''model'', model),
         (''prompt_text'', prompt),
         (''duration'', duration),
         (''watermark'', JBool False),
         (''ratio'', JStr ''16:9'')]))\<rparr>"

definition generateVideo :: "world \<Rightarrow> jsval \<Rightarrow> jsval \<Rightarrow> jsval io" where
  "generateVideo w prompt options0 =
     (let options = (if options0 = JUndefined then JObj [] else options0);
          apiKey = env w ''RUNWAY_API_KEY''
      in if unset apiKey then io_throw (Error w ''RUNWAY_API_KEY not configured'')
         else
           io_bind (io_lift (get_default w options ''duration'' (JNum 5))) (\<lambda>duration.
           io_bind (io_lift (get_default w options ''model'' (JStr ''gen3a_turbo''))) (\<lambda>model.
           io_bind (do_fetch w (video_request (the apiKey) model prompt duration)) (\<lambda>response.
           io_bind (io_lift response) (\<lambda>data.
           io_bind (io_lift (get w data ''error'')) (\<lambda>err.
           if truthy err then throw_new_Error w err
           else
             io_bind (io_lift (get w data ''id'')) (\<lambda>task_id.
             io_bind (io_lift (to_string w task_id)) (\<lambda>id_text.
             io_return (JObj
               [(''task_id'', task_id),
                (''status'', JStr ''processing''),
                (''poll_url'', JStr (''https://api.dev.runwayml.com/v1/tasks/'' @ id_text)),
                (''model'', model),
                (''duration'', duration),
                (''note'',
                 JStr ''Video is generating. Poll the task_id endpoint for completion.'')])))))))))"

subsection \<open>logUsage\<close>

definition usage_request :: "world \<Rightarrow> string \<Rightarrow> string \<Rightarrow> jsval \<Rightarrow> jsval \<Rightarrow> jsval \<Rightarrow> string \<Rightarrow> request" where
  "usage_request w supabaseUrl supabaseKey customerId type cost costKey =
     \<lparr>url = supabaseUrl @ ''/rest/v1/creative_usage'',
      req_method = ''POST'',
      req_headers =
        [(''apikey'', supabaseKey),
         (''Authorization'', ''Bearer '' @ supabaseKey),
         (''Content-Type'', ''application/json''),
         (''Prefer'', ''return=minimal'')],
      req_body = Some (JSON_stringify (JObj
        [(''customer_id'', customerId),
         (''type'', type),
         (''cost'', cost),
         (''cost_key'', JStr costKey),
         (''created_at'', JStr (toISOString_now w))]))\<rparr>"

text \<open>The whole body is one \<^verbatim>\<open>try\<close>; the \<^verbatim>\<open>catch\<close> writes to the console and returns.\<close>

definition logUsage :: "world \<Rightarrow> jsval \<Rightarrow> jsval \<Rightarrow> jsval \<Rightarrow> string \<Rightarrow> unit io" where
  "logUsage w customerId type cost costKey =
     io_catch
       (let supabaseUrl = env w ''SUPABASE_URL'';
            supabaseKey = env w ''SUPABASE_SERVICE_ROLE_KEY''
        in if unset supabaseUrl \<or> unset supabaseKey
           then (Inr (), [Console_warn ''Supabase not configured, skipping usage log''])
           else
             io_bind
               (do_fetch w
                  (usage_request w (the supabaseUrl) (the supabaseKey) customerId type cost costKey))
               (\<lambda>response. io_return ()))
       (\<lambda>error. (Inr (), [Console_error ''Failed to log usage:'' error]))"

subsection \<open>The handler\<close>

text \<open>\<^verbatim>\<open>options.size?.includes('1792')\<close>\<close>

definition size_includes_1792 :: "world \<Rightarrow> jsval \<Rightarrow> exn + jsval" where
  "size_includes_1792 w options =
     bindE (get w options ''size'')
       (\<lambda>size. if nullish size then Inr JUndefined else call_includes w size ''1792'')"

text \<open>The conditional expression that chooses the cost key of an image.\<close>

definition image_costKey :: "world \<Rightarrow> jsval \<Rightarrow> exn + string" where
  "image_costKey w options =
     bindE (get w options ''quality'') (\<lambda>quality.
       if quality = JStr ''hd''
       then bindE (size_includes_1792 w options)
              (\<lambda>wide. Inr (if truthy wide then ''dall-e-3-wide-hd'' else ''dall-e-3-hd''))
       else bindE (size_includes_1792 w options)
              (\<lambda>wide. Inr (if truthy wide then ''dall-e-3-wide'' else ''dall-e-3-standard'')))"

text \<open>
  The \<^verbatim>\<open>switch (type)\<close> statement: a generation result with its cost and cost key, or
  the default branch.
\<close>

datatype dispatched = Generated jsval jsval string | Unknown_type

definition dispatch :: "world \<Rightarrow> jsval \<Rightarrow> jsval \<Rightarrow> jsval \<Rightarrow> dispatched io" where
  "dispatch w type prompt options =
     (if type = JStr ''image'' then
        io_bind (generateImage w prompt options) (\<lambda>result.
        io_bind (io_lift (image_costKey w options)) (\<lambda>costKey.
        io_return (Generated result (COSTS_at costKey) costKey)))
      else if type = JStr ''video'' then
        io_bind (generateVideo w prompt options) (\<lambda>result.
        io_return (Generated result (COSTS_at ''runway-video'') ''runway-video''))
      else io_return Unknown_type)"

text \<open>
  Object spread \<^verbatim>\<open>{...base, ...result}\<close>: each own property of the result is set on
  the object under construction, in place when the key is there already and at
  the end otherwise.
\<close>

fun set_property :: "string \<Rightarrow> jsval \<Rightarrow> (string \<times> jsval) list \<Rightarrow> (string \<times> jsval) list" where
  "set_property k v [] = [(k, v)]"
| "set_property k v ((k', v') # kvs) =
     (if k' = k then (k, v) # kvs else (k', v') # set_property k v kvs)"

definition spread :: "(string \<times> jsval) list \<Rightarrow> jsval \<Rightarrow> (string \<times> jsval) list" where
  "spread base result =
     (case result of
        JObj kvs \<Rightarrow> foldl (\<lambda>acc kv. set_property (fst kv) (snd kv) acc) base kvs
      | _ \<Rightarrow> base)"

definition json_response :: "nat \<Rightarrow> jsval \<Rightarrow> response" where
  "json_response code v =
     \<lparr>statusCode = code, headers = creative_headers, body = JSON_stringify v\<rparr>"

text \<open>The two 400 responses of the handler.\<close>

definition missing_fields_response :: response where
  "missing_fields_response =
     json_response 400 (JObj [(''error'', JStr ''Missing required fields: type, prompt'')])"

definition unknown_type_response :: "string \<Rightarrow> response" where
  "unknown_type_response type_text =
     json_response 400
       (JObj [(''error'',
          JStr (''Unknown type: '' @ type_text @ ''. Use \"image\" or \"video\"''))])"

text \<open>The \<^verbatim>\<open>try\<close> block of the handler.\<close>

definition handler_try :: "world \<Rightarrow> event \<Rightarrow> response io" where
  "handler_try w event =
     io_bind (io_lift (JSON_parse w (case ev_body event of None \<Rightarrow> ''null'' | Some s \<Rightarrow> s)))
       (\<lambda>body.
     io_bind (io_lift (get w body ''type'')) (\<lambda>type.
     io_bind (io_lift (get w body ''prompt'')) (\<lambda>prompt.
     io_bind (io_lift (get w body ''customer_id'')) (\<lambda>customer_id.
     io_bind (io_lift (get_default w body ''options'' (JObj []))) (\<lambda>options.
     if \<not> truthy type \<or> \<not> truthy prompt
     then io_return missing_fields_response
     else
       io_bind (dispatch w type prompt options) (\<lambda>d.
       case d of
         Unknown_type \<Rightarrow>
           io_bind (io_lift (to_string w type)) (\<lambda>type_text.
           io_return (unknown_type_response type_text))
       | Generated result cost costKey \<Rightarrow>
           io_bind
             (if truthy customer_id \<and> \<not> unset (env w ''SUPABASE_URL'')
              then logUsage w customer_id type cost costKey
              else io_return ())
             (\<lambda>u.
           io_return (json_response 200
             (JObj (spread
                [(''success'', JBool True), (''type'', type), (''cost'', cost)]
                result))))))))))"

text \<open>The \<^verbatim>\<open>catch\<close> block of the handler: the response it builds, and the block.\<close>

definition failure_response :: "world \<Rightarrow> exn \<Rightarrow> response" where
  "failure_response w error =
     json_response 500
       (JObj
         [(''error'',
           JStr (if message error \<noteq> [] then message error else ''Generation failed'')),
          (''details'',
           if env w ''NODE_ENV'' = Some ''development'' then JStr (stack error)
           else JUndefined)])"

definition handler_catch :: "world \<Rightarrow> exn \<Rightarrow> response io" where
  "handler_catch w error =
     (Inr (failure_response w error), [Console_error ''Generation error:'' error])"

definition handler :: "world \<Rightarrow> event \<Rightarrow> response io" where
  "handler w event =
     (if httpMethod event = ''OPTIONS''
      then io_return \<lparr>statusCode = 200, headers = creative_headers, body = Literal []\<rparr>
      else if httpMethod event \<noteq> ''POST''
      then io_return (json_response 405 (JObj [(''error'', JStr ''Method not allowed'')]))
      else io_catch (handler_try w event) (handler_catch w))"

section \<open>The Status Checker (the video-status handler)\<close>

definition status_headers :: "(string \<times> string) list" where
  "status_headers =
     [(''Access-Control-Allow-Origin'', ''*''),
      (''Access-Control-Allow-Headers'', ''Content-Type, Authorization''),
      (''Access-Control-Allow-Methods'', ''GET, OPTIONS''),
      (''Content-Type'', ''application/json'')]"

definition status_response :: "nat \<Rightarrow> jsval \<Rightarrow> response" where
  "status_response code v =
     \<lparr>statusCode = code, headers = status_headers, body = JSON_stringify v\<rparr>"

definition task_request :: "string \<Rightarrow> string \<Rightarrow> request" where
  "task_request apiKey taskId =
     \<lparr>url = ''https://api.dev.runwayml.com/v1/tasks/'' @ taskId,
      req_method = ''GET'',
      req_headers =
        [(''Authorization'', ''Bearer '' @ apiKey),
         (''X-Runway-Version'', ''2024-11-06'')],
      req_body = None\<rparr>"

text \<open>\<^verbatim>\<open>data.output?.[0]\<close>\<close>

definition output_first :: "world \<Rightarrow> jsval \<Rightarrow> exn + jsval" where
  "output_first w data =
     bindE (get w data ''output'')
       (\<lambda>output. if nullish output then Inr JUndefined else get w output ''0'')"

text \<open>The \<^verbatim>\<open>try\<close> block of the status handler, for a task identifier that is present.\<close>

definition status_try :: "world \<Rightarrow> string \<Rightarrow> response io" where
  "status_try w taskId =
     (let apiKey = env w ''RUNWAY_API_KEY''
      in if unset apiKey then io_throw (Error w ''RUNWAY_API_KEY not configured'')
         else
           io_bind (do_fetch w (task_request (the apiKey) taskId)) (\<lambda>response.
           io_bind (io_lift response) (\<lambda>data.
           io_bind (io_lift (get w data ''error'')) (\<lambda>err.
           if truthy err then throw_new_Error w err
           else
             io_bind (io_lift (get w data ''status'')) (\<lambda>raw_status.
             io_bind
               (if raw_status = JStr ''SUCCEEDED''
                then io_bind (io_lift (output_first w data))
                       (\<lambda>videoUrl. io_return (JStr ''completed'', videoUrl))
                else if raw_status = JStr ''FAILED''
                then io_return (JStr ''failed'', JNull)
                else io_return (JStr ''processing'', JNull))
               (\<lambda>projected.
             io_bind (io_lift (get w data ''progress'')) (\<lambda>progress.
             io_return (status_response 200
               (JObj
                 [(''task_id'', JStr taskId),
                  (''status'', fst projected),
                  (''video_url'', snd projected),
                  (''progress'', progress),
                  (''raw_status'', raw_status)])))))))))"

definition status_catch :: "exn \<Rightarrow> response io" where
  "status_catch error =
     (Inr (status_response 500 (JObj [(''error'', JStr (message error))])),
      [Console_error ''Status check error:'' error])"

definition status_handler :: "world \<Rightarrow> event \<Rightarrow> response io" where
  "status_handler w event =
     (if httpMethod event = ''OPTIONS''
      then io_return \<lparr>statusCode = 200, headers = status_headers, body = Literal []\<rparr>
      else if httpMethod event \<noteq> ''GET''
      then io_return (status_response 405 (JObj [(''error'', JStr ''Method not allowed'')]))
      else
        (let taskId =
               (case queryStringParameters event of
                  None \<Rightarrow> None
                | Some params \<Rightarrow> map_of params ''task_id'')
         in if unset taskId
            then io_return
                   (status_response 400 (JObj [(''error'', JStr ''Missing task_id parameter'')]))
            else io_catch (status_try w (the taskId)) status_catch))"

section \<open>Reading an outcome\<close>

definition status_of :: "response io \<Rightarrow> nat option" where
  "status_of m = (case fst m of Inl e \<Rightarrow> None | Inr r \<Rightarrow> Some (statusCode r))"

definition body_of :: "response io \<Rightarrow> jstext option" where
  "body_of m = (case fst m of Inl e \<Rightarrow> None | Inr r \<Rightarrow> Some (body r))"

text \<open>The properties of the object a response serialises, and their names.\<close>

definition body_fields :: "response io \<Rightarrow> (string \<times> jsval) list" where
  "body_fields m =
     (case body_of m of Some (JSON_stringify (JObj kvs)) \<Rightarrow> kvs | _ \<Rightarrow> [])"

definition body_field :: "response io \<Rightarrow> string \<Rightarrow> jsval option" where
  "body_field m name = map_of (body_fields m) name"


text \<open>
  What the Usage Logger leaves behind when it runs: its request to the data store,
  its warning, or its error line.
\<close>

definition usage_effect :: "effect \<Rightarrow> bool" where
  "usage_effect e =
     (case e of
        Fetch r \<Rightarrow> suffix ''/rest/v1/creative_usage'' (url r)
      | Console_warn s \<Rightarrow> s = ''Supabase not configured, skipping usage log''
      | Console_error s x \<Rightarrow> s = ''Failed to log usage:'')"

text \<open>
  Two environments that differ at most in the data store: in its two configuration
  values, in what it answers to a request to the usage table, and in the clock that
  stamps the usage event.
\<close>

definition same_but_for_usage_log :: "world \<Rightarrow> world \<Rightarrow> bool" where
  "same_but_for_usage_log w w' \<longleftrightarrow>
     JSON_parse w' = JSON_parse w
     \<and> number_to_string w' = number_to_string w
     \<and> TypeError w' = TypeError w
     \<and> capture_stack w' = capture_stack w
     \<and> (\<forall>name. name \<noteq> ''SUPABASE_URL'' \<and> name \<noteq> ''SUPABASE_SERVICE_ROLE_KEY''
            \<longrightarrow> env w' name = env w name)
     \<and> (\<forall>r. \<not> suffix ''/rest/v1/creative_usage'' (url r) \<longrightarrow> fetch w' r = fetch w r)"

section \<open>The specification's wording\<close>

text \<open>The three-way status rule of the specification.\<close>

definition normalized_status :: "string \<Rightarrow> string" where
  "normalized_status s =
     (if s = ''SUCCEEDED'' then ''completed''
      else if s = ''FAILED'' then ''failed''
      else ''processing'')"

text \<open>Index 0 of the vendor's output list, \<^verbatim>\<open>undefined\<close> when there is none.\<close>

definition output_index0 :: "(string \<times> jsval) list \<Rightarrow> jsval" where
  "output_index0 kvs =
     (case map_of kvs ''output'' of
        Some (JArr (x # xs)) \<Rightarrow> x
      | _ \<Rightarrow> JUndefined)"

definition output_list_or_absent :: "(string \<times> jsval) list \<Rightarrow> bool" where
  "output_list_or_absent kvs =
     (case map_of kvs ''output'' of
        None \<Rightarrow> True
      | Some (JArr xs) \<Rightarrow> True
      | _ \<Rightarrow> False)"

definition field_or_undefined :: "(string \<times> jsval) list \<Rightarrow> string \<Rightarrow> jsval" where
  "field_or_undefined kvs name =
     (case map_of kvs name of None \<Rightarrow> JUndefined | Some v \<Rightarrow> v)"

text \<open>
  The 2x2 decision of the specification: quality is \<^verbatim>\<open>hd\<close>, crossed with the size
  containing the wide-format marker.
\<close>

definition cost_key_decision :: "bool \<Rightarrow> bool \<Rightarrow> string" where
  "cost_key_decision is_hd wide =
     (if is_hd then (if wide then ''dall-e-3-wide-hd'' else ''dall-e-3-hd'')
      else (if wide then ''dall-e-3-wide'' else ''dall-e-3-standard''))"

definition contains_wide_marker :: "jsval \<Rightarrow> bool" where
  "contains_wide_marker sz =
     (case sz of
        JStr s \<Rightarrow> includes_str s ''1792''
      | JArr xs \<Rightarrow> JStr ''1792'' \<in> set xs
      | _ \<Rightarrow> False)"

text \<open>
  The sizes on which \<^verbatim>\<open>size?.includes\<close> gives an answer: a string, an array, or no
  size at all.
\<close>

definition searchable_size :: "jsval \<Rightarrow> bool" where
  "searchable_size sz =
     (case sz of
        JUndefined \<Rightarrow> True
      | JNull \<Rightarrow> True
      | JStr s \<Rightarrow> True
      | JArr xs \<Rightarrow> True
      | _ \<Rightarrow> False)"



section \<open>A concrete world\<close>

text \<open>
  An environment to run the handlers in: every credential is configured, the vendors
  answer, and the data store is down. \<open>example_parse\<close> is \<^verbatim>\<open>JSON.parse\<close> on the
  request bodies used below and a \<^verbatim>\<open>SyntaxError\<close> elsewhere, as for the malformed
  body \<^verbatim>\<open>{\<close>.
\<close>

definition example_bodies :: "(string \<times> jsval) list" where
  "example_bodies =
     [(''{\"type\":\"image\",\"prompt\":\"a cat\",\"options\":{\"quality\":\"hd\",\"size\":\"1792x1024\"}}'',
       JObj [(''type'', JStr ''image''), (''prompt'', JStr ''a cat''),
             (''options'', JObj [(''quality'', JStr ''hd''), (''size'', JStr ''1792x1024'')])]),
      (''{\"type\":\"image\",\"prompt\":\"a cat\",\"options\":{\"quality\":\"ultra\"}}'',
       JObj [(''type'', JStr ''image''), (''prompt'', JStr ''a cat''),
             (''options'', JObj [(''quality'', JStr ''ultra'')])]),
      (''{\"type\":\"image\",\"prompt\":\"a cat\",\"customer_id\":\"c1\"}'',
       JObj [(''type'', JStr ''image''), (''prompt'', JStr ''a cat''),
             (''customer_id'', JStr ''c1'')]),
      (''{\"type\":\"image\",\"prompt\":\"a cat\",\"customer_id\":\"\"}'',
       JObj [(''type'', JStr ''image''), (''prompt'', JStr ''a cat''),
             (''customer_id'', JStr [])]),
      (''{\"type\":\"video\",\"prompt\":\"a wave\"}'',
       JObj [(''type'', JStr ''video''), (''prompt'', JStr ''a wave'')]),
      (''{\"type\":\"audio\",\"prompt\":\"a song\"}'',
       JObj [(''type'', JStr ''audio''), (''prompt'', JStr ''a song'')]),
      (''{\"type\":\"audio\"}'',
       JObj [(''type'', JStr ''audio'')])]"

definition example_parse :: "string \<Rightarrow> exn + jsval" where
  "example_parse s =
     (case map_of example_bodies s of
        Some v \<Rightarrow> Inr v
      | None \<Rightarrow>
          Inl (Exn ''Unexpected end of JSON input''
                   ''SyntaxError: Unexpected end of JSON input''))"

definition example_vendor :: "(string \<times> jsval) list" where
  "example_vendor =
     [(''https://api.openai.com/v1/images/generations'',
       JObj [(''data'', JArr [JObj [(''url'', JStr ''https://img.example/1.png''),
                                    (''revised_prompt'', JStr ''A cat.'')]])]),
      (''https://api.dev.runwayml.com/v1/text_to_video'',
       JObj [(''id'', JStr ''t1'')]),
      (''https://api.dev.runwayml.com/v1/tasks/abc'',
       JObj [(''status'', JStr ''SUCCEEDED'')]),
      (''https://api.dev.runwayml.com/v1/tasks/t1'',
       JObj [(''status'', JStr ''SUCCEEDED''),
             (''output'', JArr [JStr ''https://video.example/t1.mp4'']),
             (''progress'', JNum 1)]),
      (''https://api.dev.runwayml.com/v1/tasks/t2'',
       JObj [(''status'', JStr ''FAILED'')]),
      (''https://api.dev.runwayml.com/v1/tasks/t3'',
       JObj [(''status'', JStr ''RUNNING''), (''progress'', JNum 0.5)])]"

definition example_fetch :: "request \<Rightarrow> exn + (exn + jsval)" where
  "example_fetch r =
     (case map_of example_vendor (url r) of
        Some v \<Rightarrow> Inr (Inr v)
      | None \<Rightarrow> Inl (Exn ''connect ECONNREFUSED'' ''FetchError: connect ECONNREFUSED''))"

definition example_env :: "string \<Rightarrow> string option" where
  "example_env =
     map_of
       [(''OPENAI_API_KEY'', ''sk-test''),
        (''RUNWAY_API_KEY'', ''rw-test''),
        (''SUPABASE_URL'', ''https://db.example''),
        (''SUPABASE_SERVICE_ROLE_KEY'', ''service-test'')]"

definition example_world :: world where
  "example_world =
     \<lparr>env = example_env,
      JSON_parse = example_parse,
      fetch = example_fetch,
      number_to_string = (\<lambda>n. if n = 5 then ''5'' else ''0''),
      TypeError = (\<lambda>msg. Exn msg ''TypeError''),
      capture_stack = (\<lambda>msg. ''Error: '' @ msg),
      toISOString_now = ''2026-01-01T00:00:00.000Z''\<rparr>"

text \<open>The same world with the data store up.\<close>

definition example_world_store_up :: world where
  "example_world_store_up =
     example_world
       \<lparr>fetch := (\<lambda>r. if suffix ''/rest/v1/creative_usage'' (url r) then Inr (Inr JNull)
                       else example_fetch r)\<rparr>"

text \<open>The same world with the data store's credential missing.\<close>

definition example_world_unconfigured :: world where
  "example_world_unconfigured =
     example_world\<lparr>env := example_env(''SUPABASE_SERVICE_ROLE_KEY'' := None)\<rparr>"

definition post :: "string \<Rightarrow> event" where
  "post raw = \<lparr>httpMethod = ''POST'', ev_body = Some raw, queryStringParameters = None\<rparr>"

definition get_status :: "string \<Rightarrow> event" where
  "get_status taskId =
     \<lparr>httpMethod = ''GET'', ev_body = None,
      queryStringParameters = Some [(''task_id'', taskId)]\<rparr>"

definition options_request :: event where
  "options_request =
     \<lparr>httpMethod = ''OPTIONS'', ev_body = Some ''{'',
      queryStringParameters = Some [(''task_id'', ''abc'')]\<rparr>"

section \<open>Results and effects of the combinators\<close>

lemma fst_io_return: "fst (io_return x) = Inr x"
  by (simp add: io_return_def)

lemma snd_io_return: "snd (io_return x) = []"
  by (simp add: io_return_def)

lemma fst_io_throw: "fst (io_throw e) = Inl e"
  by (simp add: io_throw_def)

lemma snd_io_throw: "snd (io_throw e) = []"
  by (simp add: io_throw_def)

lemma fst_io_lift: "fst (io_lift r) = r"
  by (simp add: io_lift_def)

lemma snd_io_lift: "snd (io_lift r) = []"
  by (simp add: io_lift_def)

lemma fst_do_fetch: "fst (do_fetch w req) = fetch w req"
  by (simp add: do_fetch_def)

lemma snd_do_fetch: "snd (do_fetch w req) = [Fetch req]"
  by (simp add: do_fetch_def)

lemma fst_io_bind:
  "fst (io_bind m f) = (case fst m of Inl e \<Rightarrow> Inl e | Inr x \<Rightarrow> fst (f x))"
  by (cases m) (auto simp: io_bind_def split: sum.splits prod.splits)

lemma snd_io_bind:
  "snd (io_bind m f) = (case fst m of Inl e \<Rightarrow> snd m | Inr x \<Rightarrow> snd m @ snd (f x))"
  by (cases m) (auto simp: io_bind_def split: sum.splits prod.splits)

lemma fst_io_catch:
  "fst (io_catch m h) = (case fst m of Inr x \<Rightarrow> Inr x | Inl e \<Rightarrow> fst (h e))"
  by (cases m) (auto simp: io_catch_def split: sum.splits prod.splits)

lemma snd_io_catch:
  "snd (io_catch m h) = (case fst m of Inr x \<Rightarrow> snd m | Inl e \<Rightarrow> snd m @ snd (h e))"
  by (cases m) (auto simp: io_catch_def split: sum.splits prod.splits)

lemmas io_fst = fst_io_return fst_io_throw fst_io_lift fst_do_fetch fst_io_bind fst_io_catch

lemmas io_snd = snd_io_return snd_io_throw snd_io_lift snd_do_fetch snd_io_bind snd_io_catch

lemma get_defined:
  assumes "get w v name = Inr x"
  shows "\<exists>y. get w v name' = Inr y"
  using assms by (cases v) (simp_all add: get_def)

text \<open>Neither handler ever rejects: every event gets a response.\<close>

lemma handler_resolves: "\<exists>resp. fst (handler w event) = Inr resp"
  by (simp add: handler_def handler_catch_def io_fst split: sum.splits)

lemma status_handler_resolves: "\<exists>resp. fst (status_handler w event) = Inr resp"
  by (simp add: status_handler_def status_catch_def io_fst Let_def split: sum.splits)

section \<open>CORS preflight\<close>

text \<open>
  C9. A request with method \<^verbatim>\<open>OPTIONS\<close> is answered by either handler with status 200
  and the empty body, whatever the rest of the event and the configuration are; the
  handler touches nothing outside.
\<close>

theorem options_preflight:
  assumes "httpMethod event = ''OPTIONS''"
  shows "handler w event =
           (Inr \<lparr>statusCode = 200, headers = creative_headers, body = Literal []\<rparr>, [])
       \<and> status_handler w event =
           (Inr \<lparr>statusCode = 200, headers = status_headers, body = Literal []\<rparr>, [])"
  using assms by (simp add: handler_def status_handler_def io_return_def)

theorem options_preflight_witness:
  "httpMethod options_request = ''OPTIONS''
   \<and> status_of (handler example_world options_request) = Some 200
   \<and> body_of (handler example_world options_request) = Some (Literal [])
   \<and> status_of (status_handler example_world options_request) = Some 200
   \<and> body_of (status_handler example_world options_request) = Some (Literal [])"
proof -
  have h: "httpMethod options_request = ''OPTIONS''"
    by (simp add: options_request_def)
  show ?thesis
    using h options_preflight [OF h, of example_world]
    by (simp add: status_of_def body_of_def)
qed

section \<open>A body that does not parse\<close>

text \<open>
  C2, as the specification states it, fails: the malformed body \<^verbatim>\<open>{\<close> is answered with
  status 500, not 400.
\<close>

theorem malformed_body_counterexample:
  "JSON_parse example_world ''{'' = Inl (Exn ''Unexpected end of JSON input''
       ''SyntaxError: Unexpected end of JSON input'')
   \<and> status_of (handler example_world (post ''{'')) = Some 500
   \<and> status_of (handler example_world (post ''{'')) \<noteq> Some 400"
  by code_simp

text \<open>
  C2, amended. When \<^verbatim>\<open>JSON.parse\<close> throws on the body of a \<^verbatim>\<open>POST\<close> request, the
  exception reaches the handler's \<^verbatim>\<open>catch\<close>: the response has status 500, its
  \<^verbatim>\<open>error\<close> is the exception's message (or \<^verbatim>\<open>Generation failed\<close> when that is empty),
  \<^verbatim>\<open>details\<close> is the stack in development mode only, and the error is written to
  the console.
\<close>

theorem malformed_body_fails_500:
  assumes "httpMethod event = ''POST''"
    and "JSON_parse w (case ev_body event of None \<Rightarrow> ''null'' | Some s \<Rightarrow> s) = Inl e"
  shows "handler w event =
           (Inr (failure_response w e), [Console_error ''Generation error:'' e])
       \<and> statusCode (failure_response w e) = 500
       \<and> body (failure_response w e) = JSON_stringify (JObj
            [(''error'', JStr (if message e \<noteq> [] then message e else ''Generation failed'')),
             (''details'', if env w ''NODE_ENV'' = Some ''development'' then JStr (stack e)
                           else JUndefined)])"
  using assms
  by (simp add: handler_def handler_try_def handler_catch_def io_bind_def io_lift_def
      io_catch_def failure_response_def json_response_def)

theorem malformed_body_fails_500_witness:
  "httpMethod (post ''{'') = ''POST''
   \<and> status_of (handler example_world (post ''{'')) = Some 500
   \<and> body_field (handler example_world (post ''{'')) ''error''
       = Some (JStr ''Unexpected end of JSON input'')"
proof -
  have h1: "httpMethod (post ''{'') = ''POST''"
    by (simp add: post_def)
  have h2: "JSON_parse example_world
              (case ev_body (post ''{'') of None \<Rightarrow> ''null'' | Some s \<Rightarrow> s)
            = Inl (Exn ''Unexpected end of JSON input''
                       ''SyntaxError: Unexpected end of JSON input'')"
    by code_simp
  show ?thesis
    using h1 malformed_body_fails_500 [OF h1 h2]
    by (simp add: status_of_def body_field_def body_fields_def body_of_def)
qed

section \<open>An unknown generation type\<close>

lemma to_string_JStr: "to_string w (JStr s) = Inr s"
  by (simp add: to_string_def)

lemma dispatch_other:
  assumes "t \<noteq> JStr ''image''" and "t \<noteq> JStr ''video''"
  shows "dispatch w t p opts = (Inr Unknown_type, [])"
  using assms by (simp add: dispatch_def io_return_def)

text \<open>
  C5, as the specification states it, fails: for the parsed body \<^verbatim>\<open>{"type":"audio"}\<close>,
  which has no prompt, the response is 400 but its message is the missing-fields one,
  which does not name \<^verbatim>\<open>audio\<close>.
\<close>

theorem unknown_type_counterexample:
  "JSON_parse example_world ''{\"type\":\"audio\"}'' = Inr (JObj [(''type'', JStr ''audio'')])
   \<and> status_of (handler example_world (post ''{\"type\":\"audio\"}'')) = Some 400
   \<and> body_of (handler example_world (post ''{\"type\":\"audio\"}'')) = Some (JSON_stringify
        (JObj [(''error'', JStr ''Missing required fields: type, prompt'')]))
   \<and> \<not> includes_str ''Missing required fields: type, prompt'' ''audio''"
  by code_simp

text \<open>
  C5, amended. Take a \<^verbatim>\<open>POST\<close> request whose body parses to a value with readable
  properties and whose \<^verbatim>\<open>type\<close> is neither \<^verbatim>\<open>image\<close> nor \<^verbatim>\<open>video\<close>. When \<^verbatim>\<open>type\<close> or
  \<^verbatim>\<open>prompt\<close> is falsy, the response is 400 with the message
  \<^verbatim>\<open>Missing required fields: type, prompt\<close>, which does not name the type. Otherwise
  the response is 400 with \<^verbatim>\<open>Unknown type: T. Use "image" or "video"\<close>, where \<^verbatim>\<open>T\<close> is
  the string conversion of \<^verbatim>\<open>type\<close>: the value itself for a string; a value whose
  conversion throws goes to the \<^verbatim>\<open>catch\<close> block.
\<close>

theorem unknown_type_rejected:
  assumes "httpMethod event = ''POST''"
    and "JSON_parse w (case ev_body event of None \<Rightarrow> ''null'' | Some s \<Rightarrow> s) = Inr b"
    and "get w b ''type'' = Inr t"
    and "get w b ''prompt'' = Inr p"
    and "t \<noteq> JStr ''image''" and "t \<noteq> JStr ''video''"
  shows "fst (handler w event) = Inr
           (if \<not> truthy t \<or> \<not> truthy p then missing_fields_response
            else case to_string w t of
                   Inr type_text \<Rightarrow> unknown_type_response type_text
                 | Inl e \<Rightarrow> failure_response w e)
       \<and> statusCode missing_fields_response = 400
       \<and> body missing_fields_response = JSON_stringify
            (JObj [(''error'', JStr ''Missing required fields: type, prompt'')])
       \<and> (\<forall>s. t = JStr s \<longrightarrow> to_string w t = Inr s
              \<and> statusCode (unknown_type_response s) = 400
              \<and> body (unknown_type_response s) = JSON_stringify
                   (JObj [(''error'',
                      JStr (''Unknown type: '' @ s @ ''. Use \"image\" or \"video\"''))]))"
proof -
  obtain c where c: "get w b ''customer_id'' = Inr c"
    using get_defined [OF assms(3)] by blast
  obtain opts where opts: "get_default w b ''options'' (JObj []) = Inr opts"
    using get_defined [OF assms(3), of "''options''"]
    by (auto simp: get_default_def bindE_def)
  have "fst (handler_try w event) =
          (if \<not> truthy t \<or> \<not> truthy p then Inr missing_fields_response
           else case to_string w t of
                  Inr type_text \<Rightarrow> Inr (unknown_type_response type_text)
                | Inl e \<Rightarrow> Inl e)"
    using assms(2-4) c opts dispatch_other [OF assms(5,6)]
    by (simp add: handler_try_def io_fst split: sum.splits)
  then have "fst (handler w event) = Inr
           (if \<not> truthy t \<or> \<not> truthy p then missing_fields_response
            else case to_string w t of
                   Inr type_text \<Rightarrow> unknown_type_response type_text
                 | Inl e \<Rightarrow> failure_response w e)"
    using assms(1)
    by (simp add: handler_def handler_catch_def io_fst split: sum.splits)
  then show ?thesis
    by (simp add: missing_fields_response_def unknown_type_response_def json_response_def
        to_string_JStr)
qed

theorem unknown_type_rejected_witness:
  "httpMethod (post ''{\"type\":\"audio\",\"prompt\":\"a song\"}'') = ''POST''
   \<and> status_of (handler example_world (post ''{\"type\":\"audio\",\"prompt\":\"a song\"}''))
       = Some 400
   \<and> body_of (handler example_world (post ''{\"type\":\"audio\",\"prompt\":\"a song\"}''))
       = Some (JSON_stringify
          (JObj [(''error'', JStr ''Unknown type: audio. Use \"image\" or \"video\"'')]))"
proof -
  let ?ev = "post ''{\"type\":\"audio\",\"prompt\":\"a song\"}''"
  let ?b = "JObj [(''type'', JStr ''audio''), (''prompt'', JStr ''a song'')]"
  have h1: "httpMethod ?ev = ''POST''"
    by (simp add: post_def)
  have h2: "JSON_parse example_world (case ev_body ?ev of None \<Rightarrow> ''null'' | Some s \<Rightarrow> s)
            = Inr ?b"
    by code_simp
  have h3: "get example_world ?b ''type'' = Inr (JStr ''audio'')"
    by code_simp
  have h4: "get example_world ?b ''prompt'' = Inr (JStr ''a song'')"
    by code_simp
  have h5: "JStr ''audio'' \<noteq> JStr ''image''" and h6: "JStr ''audio'' \<noteq> JStr ''video''"
    by simp_all
  show ?thesis
    using h1 unknown_type_rejected [OF h1 h2 h3 h4 h5 h6]
    by (simp add: status_of_def body_of_def to_string_JStr)
qed

section \<open>The projected status\<close>

lemma unset_Some: "unset (Some s) = (s = [])"
  by (simp add: unset_def)

lemma get_JObj: "get w (JObj kvs) name = Inr (field_or_undefined kvs name)"
  by (simp add: get_def field_or_undefined_def)

lemma array_index_0: "array_index ''0'' = Some 0"
  by (simp add: array_index_def)

lemma output_first_list:
  assumes "output_list_or_absent kvs"
  shows "output_first w (JObj kvs) = Inr (output_index0 kvs)"
  using assms
  by (auto simp: output_first_def output_list_or_absent_def output_index0_def get_def bindE_def
      nullish_def array_index_0 split: option.splits jsval.splits list.splits)

text \<open>
  C1, as the specification states it, fails in its last part: when the vendor reports
  \<^verbatim>\<open>SUCCEEDED\<close> without an output list, \<^verbatim>\<open>video_url\<close> is \<^verbatim>\<open>undefined\<close>, not \<^verbatim>\<open>null\<close>.
\<close>

theorem status_projection_counterexample:
  "fetch example_world (task_request ''rw-test'' ''abc'')
     = Inr (Inr (JObj [(''status'', JStr ''SUCCEEDED'')]))
   \<and> status_of (status_handler example_world (get_status ''abc'')) = Some 200
   \<and> body_field (status_handler example_world (get_status ''abc'')) ''status''
       = Some (JStr ''completed'')
   \<and> body_field (status_handler example_world (get_status ''abc'')) ''video_url''
       = Some JUndefined
   \<and> body_field (status_handler example_world (get_status ''abc'')) ''video_url''
       \<noteq> Some JNull"
  by code_simp

text \<open>
  C1, amended. For a \<^verbatim>\<open>GET\<close> request with a non-empty \<^verbatim>\<open>task_id\<close>, a configured vendor
  credential, and a vendor response that is an object with a status string and no
  error field, whose output is a list or absent: the response is 200; \<^verbatim>\<open>status\<close> is
  \<^verbatim>\<open>completed\<close> when the vendor status is exactly \<^verbatim>\<open>SUCCEEDED\<close>, \<^verbatim>\<open>failed\<close> when it is
  exactly \<^verbatim>\<open>FAILED\<close>, and \<^verbatim>\<open>processing\<close> for every other string; \<^verbatim>\<open>video_url\<close> is, for
  \<^verbatim>\<open>SUCCEEDED\<close>, index 0 of the output list, and \<^verbatim>\<open>undefined\<close> when the list is absent
  or empty (the serialised body then has no such key); for every other status it is
  \<^verbatim>\<open>null\<close>.
\<close>

theorem status_projection:
  assumes "httpMethod event = ''GET''"
    and "queryStringParameters event = Some params"
    and "map_of params ''task_id'' = Some taskId" and "taskId \<noteq> []"
    and "env w ''RUNWAY_API_KEY'' = Some apiKey" and "apiKey \<noteq> []"
    and "fetch w (task_request apiKey taskId) = Inr (Inr (JObj kvs))"
    and "map_of kvs ''error'' = None"
    and "map_of kvs ''status'' = Some (JStr s)"
    and "output_list_or_absent kvs"
  shows "fst (status_handler w event) = Inr (status_response 200 (JObj
           [(''task_id'', JStr taskId),
            (''status'', JStr (normalized_status s)),
            (''video_url'', if s = ''SUCCEEDED'' then output_index0 kvs else JNull),
            (''progress'', field_or_undefined kvs ''progress''),
            (''raw_status'', JStr s)]))"
proof -
  have "fst (status_try w taskId) = Inr (status_response 200 (JObj
           [(''task_id'', JStr taskId),
            (''status'', JStr (normalized_status s)),
            (''video_url'', if s = ''SUCCEEDED'' then output_index0 kvs else JNull),
            (''progress'', field_or_undefined kvs ''progress''),
            (''raw_status'', JStr s)]))"
    using assms(5-9) output_first_list [OF assms(10), of w]
    by (simp add: status_try_def unset_Some io_fst get_JObj field_or_undefined_def
        normalized_status_def)
  then show ?thesis
    using assms(1-4)
    by (simp add: status_handler_def unset_Some io_fst)
qed

theorem status_projection_witness:
  "httpMethod (get_status ''t1'') = ''GET''
   \<and> body_of (status_handler example_world (get_status ''t1'')) = Some (JSON_stringify (JObj
           [(''task_id'', JStr ''t1''),
            (''status'', JStr ''completed''),
            (''video_url'', JStr ''https://video.example/t1.mp4''),
            (''progress'', JNum 1),
            (''raw_status'', JStr ''SUCCEEDED'')]))"
proof -
  let ?kvs = "[(''status'', JStr ''SUCCEEDED''),
             (''output'', JArr [JStr ''https://video.example/t1.mp4'']),
             (''progress'', JNum 1)]"
  have h1: "httpMethod (get_status ''t1'') = ''GET''"
    by (simp add: get_status_def)
  have h2: "queryStringParameters (get_status ''t1'') = Some [(''task_id'', ''t1'')]"
    by (simp add: get_status_def)
  have h3: "map_of [(''task_id'', ''t1'')] ''task_id'' = Some ''t1''" and h4: "''t1'' \<noteq> []"
    by simp_all
  have h5: "env example_world ''RUNWAY_API_KEY'' = Some ''rw-test''" and h6: "''rw-test'' \<noteq> []"
    by code_simp+
  have h7: "fetch example_world (task_request ''rw-test'' ''t1'') = Inr (Inr (JObj ?kvs))"
    by code_simp
  have h8: "map_of ?kvs ''error'' = None"
    by simp
  have h9: "map_of ?kvs ''status'' = Some (JStr ''SUCCEEDED'')"
    by simp
  have h10: "output_list_or_absent ?kvs"
    by code_simp
  show ?thesis
    using h1 status_projection [OF h1 h2 h3 h4 h5 h6 h7 h8 h9 h10]
    by (simp add: body_of_def status_response_def normalized_status_def output_index0_def
        field_or_undefined_def)
qed

section \<open>Cost keys and costs\<close>

lemma throw_new_Error_throws: "fst (throw_new_Error w v) \<noteq> Inr x"
  by (simp add: throw_new_Error_def io_fst split: sum.splits)

lemma generateImage_shape:
  assumes "fst (generateImage w prompt options) = Inr result"
  shows "\<exists>a b c d e. result = JObj [(''image_url'', a), (''revised_prompt'', b),
           (''model'', c), (''size'', d), (''quality'', e)]"
  using assms
  by (auto simp: generateImage_def Let_def io_fst throw_new_Error_throws
      split: if_splits sum.splits)

lemma generateVideo_shape:
  assumes "fst (generateVideo w prompt options) = Inr result"
  shows "\<exists>a b c d. result = JObj [(''task_id'', a), (''status'', JStr ''processing''),
           (''poll_url'', b), (''model'', c), (''duration'', d),
           (''note'', JStr ''Video is generating. Poll the task_id endpoint for completion.'')]"
  using assms
  by (auto simp: generateVideo_def Let_def io_fst throw_new_Error_throws
      split: if_splits sum.splits)

lemma image_costKey_decision:
  assumes "image_costKey w options = Inr costKey"
    and "get w options ''quality'' = Inr quality"
    and "get w options ''size'' = Inr sz"
  shows "costKey = cost_key_decision (quality = JStr ''hd'') (contains_wide_marker sz)"
  using assms
  by (cases sz)
    (auto simp: image_costKey_def size_includes_1792_def bindE_def call_includes_def
      nullish_def cost_key_decision_def contains_wide_marker_def split: if_splits)

lemma image_costKey_reads:
  assumes "image_costKey w options = Inr costKey"
  shows "\<exists>quality sz. get w options ''quality'' = Inr quality \<and> get w options ''size'' = Inr sz"
  using assms
  by (auto simp: image_costKey_def size_includes_1792_def bindE_def split: sum.splits if_splits)


lemma dispatch_image:
  assumes "fst (dispatch w (JStr ''image'') prompt options) = Inr (Generated result cost costKey)"
  shows "fst (generateImage w prompt options) = Inr result
       \<and> image_costKey w options = Inr costKey \<and> cost = COSTS_at costKey"
  using assms by (auto simp: dispatch_def io_fst split: sum.splits)

lemma dispatch_video:
  assumes "fst (dispatch w (JStr ''video'') prompt options) = Inr (Generated result cost costKey)"
  shows "fst (generateVideo w prompt options) = Inr result
       \<and> costKey = ''runway-video'' \<and> cost = COSTS_at ''runway-video''"
  using assms by (auto simp: dispatch_def io_fst split: sum.splits)

lemma dispatch_generated_type:
  assumes "fst (dispatch w type prompt options) = Inr (Generated result cost costKey)"
  shows "type = JStr ''image'' \<or> type = JStr ''video''"
  using assms by (auto simp: dispatch_def io_fst split: if_splits)


lemma image_costKey_not_searchable:
  assumes "get w options ''quality'' = Inr quality"
    and "get w options ''size'' = Inr sz"
    and "\<not> searchable_size sz"
  shows "image_costKey w options = Inl (TypeError w ''includes is not a function'')"
  using assms
  by (cases sz)
    (simp_all add: image_costKey_def size_includes_1792_def bindE_def call_includes_def
      nullish_def searchable_size_def)

lemma get_default_not_undefined:
  assumes "get_default w v name (JObj []) = Inr x"
  shows "x \<noteq> JUndefined"
  using assms by (auto simp: get_default_def bindE_def split: sum.splits if_splits)

lemma generateImage_reads:
  assumes "fst (generateImage w prompt options) = Inr result" and "options \<noteq> JUndefined"
  shows "\<exists>quality sz. get w options ''quality'' = Inr quality \<and> get w options ''size'' = Inr sz"
proof -
  obtain m where "get_default w options ''model'' (JStr ''dall-e-3'') = Inr m"
    using assms
    by (auto simp: generateImage_def Let_def io_fst split: if_splits sum.splits)
  then obtain x where "get w options ''model'' = Inr x"
    by (auto simp: get_default_def bindE_def split: sum.splits)
  then show ?thesis
    using get_defined by blast
qed



text \<open>
  On any other size (a number, a boolean, an object) \<^verbatim>\<open>includes\<close> is not a function:
  the \<^verbatim>\<open>switch\<close> statement throws after the generation, and no cost key is chosen.
\<close>

lemma image_size_not_searchable:
  assumes "fst (generateImage w prompt options) = Inr result"
    and "get w options ''quality'' = Inr quality"
    and "get w options ''size'' = Inr sz"
    and "\<not> searchable_size sz"
  shows "fst (dispatch w (JStr ''image'') prompt options)
           = Inl (TypeError w ''includes is not a function'')"
  using assms(1) image_costKey_not_searchable [OF assms(2-4)]
  by (simp add: dispatch_def io_fst)

text \<open>
  C6. The cost key and the cost are a function of the type, \<^verbatim>\<open>options.quality\<close> and
  \<^verbatim>\<open>options.size\<close> alone: two runs of the \<^verbatim>\<open>switch\<close> statement that complete, in any
  two environments, with any prompts and any other options, give the same key and the
  same cost when these three agree.
\<close>

theorem cost_deterministic:
  assumes "fst (dispatch w1 type prompt1 options1) = Inr (Generated result1 cost1 costKey1)"
    and "fst (dispatch w2 type prompt2 options2) = Inr (Generated result2 cost2 costKey2)"
    and "get w1 options1 ''quality'' = Inr quality"
    and "get w2 options2 ''quality'' = Inr quality"
    and "get w1 options1 ''size'' = Inr sz"
    and "get w2 options2 ''size'' = Inr sz"
  shows "costKey1 = costKey2 \<and> cost1 = cost2"
proof -
  consider (image) "type = JStr ''image''" | (video) "type = JStr ''video''"
    using dispatch_generated_type [OF assms(1)] by blast
  then show ?thesis
  proof cases
    case image
    have k1: "image_costKey w1 options1 = Inr costKey1" and c1: "cost1 = COSTS_at costKey1"
      using dispatch_image assms(1) image by blast+
    have k2: "image_costKey w2 options2 = Inr costKey2" and c2: "cost2 = COSTS_at costKey2"
      using dispatch_image assms(2) image by blast+
    have "costKey1 = costKey2"
      using image_costKey_decision [OF k1 assms(3,5)] image_costKey_decision [OF k2 assms(4,6)]
      by simp
    then show ?thesis
      using c1 c2 by simp
  next
    case video
    show ?thesis
      using dispatch_video assms(1,2) video by blast
  qed
qed

theorem cost_deterministic_witness:
  "fst (dispatch example_world (JStr ''image'') (JStr ''a cat'')
          (JObj [(''quality'', JStr ''hd''), (''size'', JStr ''1792x1024'')]))
     = Inr (Generated
         (JObj [(''image_url'', JStr ''https://img.example/1.png''),
                (''revised_prompt'', JStr ''A cat.''), (''model'', JStr ''dall-e-3''),
                (''size'', JStr ''1792x1024''), (''quality'', JStr ''hd'')])
         (JNum 0.12) ''dall-e-3-wide-hd'')
   \<and> fst (dispatch example_world_store_up (JStr ''image'') (JStr ''a dog'')
          (JObj [(''size'', JStr ''1792x1024''), (''model'', JStr ''dall-e-2''),
                 (''quality'', JStr ''hd'')]))
     = Inr (Generated
         (JObj [(''image_url'', JStr ''https://img.example/1.png''),
                (''revised_prompt'', JStr ''A cat.''), (''model'', JStr ''dall-e-2''),
                (''size'', JStr ''1792x1024''), (''quality'', JStr ''hd'')])
         (JNum 0.12) ''dall-e-3-wide-hd'')"
proof -
  let ?o1 = "JObj [(''quality'', JStr ''hd''), (''size'', JStr ''1792x1024'')]"
  let ?o2 = "JObj [(''size'', JStr ''1792x1024''), (''model'', JStr ''dall-e-2''),
                 (''quality'', JStr ''hd'')]"
  let ?r1 = "JObj [(''image_url'', JStr ''https://img.example/1.png''),
                (''revised_prompt'', JStr ''A cat.''), (''model'', JStr ''dall-e-3''),
                (''size'', JStr ''1792x1024''), (''quality'', JStr ''hd'')]"
  let ?r2 = "JObj [(''image_url'', JStr ''https://img.example/1.png''),
                (''revised_prompt'', JStr ''A cat.''), (''model'', JStr ''dall-e-2''),
                (''size'', JStr ''1792x1024''), (''quality'', JStr ''hd'')]"
  have h2: "fst (dispatch example_world_store_up (JStr ''image'') (JStr ''a dog'') ?o2)
     = Inr (Generated ?r2 (JNum 0.12) ''dall-e-3-wide-hd'')"
    by code_simp
  have h1: "fst (dispatch example_world (JStr ''image'') (JStr ''a cat'') ?o1)
     = Inr (Generated ?r1 (JNum 0.12) ''dall-e-3-wide-hd'')"
    by code_simp
  have h3: "get example_world ?o1 ''quality'' = Inr (JStr ''hd'')"
    and h4: "get example_world_store_up ?o2 ''quality'' = Inr (JStr ''hd'')"
    and h5: "get example_world ?o1 ''size'' = Inr (JStr ''1792x1024'')"
    and h6: "get example_world_store_up ?o2 ''size'' = Inr (JStr ''1792x1024'')"
    by code_simp+
  show ?thesis
    using h1 h2 cost_deterministic [OF h1 h2 h3 h4 h5 h6] by simp
qed

text \<open>
  C7. Whenever the \<^verbatim>\<open>switch\<close> statement completes with a generation result, for any
  type, prompt and options, the cost key is a key of the six-entry table and the
  cost is the table's price for it, never \<^verbatim>\<open>undefined\<close>.
\<close>

theorem cost_key_in_table:
  assumes "fst (dispatch w type prompt options) = Inr (Generated result cost costKey)"
  shows "costKey \<in> fst ` set COSTS \<and> length COSTS = 6
       \<and> map_of COSTS costKey \<noteq> None
       \<and> cost = COSTS_at costKey \<and> cost \<noteq> JUndefined"
proof -
  consider (image) "type = JStr ''image''" | (video) "type = JStr ''video''"
    using dispatch_generated_type [OF assms] by blast
  then show ?thesis
  proof cases
    case image
    have k: "image_costKey w options = Inr costKey" and c: "cost = COSTS_at costKey"
      using dispatch_image assms image by blast+
    obtain quality sz where "get w options ''quality'' = Inr quality"
      and "get w options ''size'' = Inr sz"
      using image_costKey_reads [OF k] by blast
    then have "costKey = cost_key_decision (quality = JStr ''hd'') (contains_wide_marker sz)"
      using image_costKey_decision [OF k] by blast
    then show ?thesis
      unfolding c
      by (cases "quality = JStr ''hd''"; cases "contains_wide_marker sz")
        (simp_all add: cost_key_decision_def COSTS_at_def COSTS_def)
  next
    case video
    have "costKey = ''runway-video''" and "cost = COSTS_at ''runway-video''"
      using dispatch_video assms video by blast+
    then show ?thesis
      by (simp add: COSTS_at_def COSTS_def)
  qed
qed

theorem cost_key_in_table_witness:
  "fst (dispatch example_world (JStr ''image'') (JStr ''a cat'') (JObj [(''quality'', JStr ''ultra'')]))
     = Inr (Generated
         (JObj [(''image_url'', JStr ''https://img.example/1.png''),
                (''revised_prompt'', JStr ''A cat.''), (''model'', JStr ''dall-e-3''),
                (''size'', JStr ''1024x1024''), (''quality'', JStr ''ultra'')])
         (JNum 0.04) ''dall-e-3-standard'')
   \<and> ''dall-e-3-standard'' \<in> fst ` set COSTS
   \<and> JNum 0.04 = COSTS_at ''dall-e-3-standard''"
proof -
  have h: "fst (dispatch example_world (JStr ''image'') (JStr ''a cat'')
             (JObj [(''quality'', JStr ''ultra'')]))
     = Inr (Generated
         (JObj [(''image_url'', JStr ''https://img.example/1.png''),
                (''revised_prompt'', JStr ''A cat.''), (''model'', JStr ''dall-e-3''),
                (''size'', JStr ''1024x1024''), (''quality'', JStr ''ultra'')])
         (JNum 0.04) ''dall-e-3-standard'')"
    by code_simp
  show ?thesis
    using h cost_key_in_table [OF h] by simp
qed

section \<open>The success envelope\<close>

lemma logUsage_returns: "fst (logUsage w customerId type cost costKey) = Inr ()"
  by (simp add: logUsage_def io_fst Let_def split: sum.splits)

lemma spread_image:
  "spread [(''success'', s), (''type'', t), (''cost'', c)]
     (JObj [(''image_url'', a1), (''revised_prompt'', a2), (''model'', a3), (''size'', a4),
            (''quality'', a5)])
   = [(''success'', s), (''type'', t), (''cost'', c), (''image_url'', a1),
      (''revised_prompt'', a2), (''model'', a3), (''size'', a4), (''quality'', a5)]"
  by (simp add: spread_def)

lemma spread_video:
  "spread [(''success'', s), (''type'', t), (''cost'', c)]
     (JObj [(''task_id'', a1), (''status'', a2), (''poll_url'', a3), (''model'', a4),
            (''duration'', a5), (''note'', a6)])
   = [(''success'', s), (''type'', t), (''cost'', c), (''task_id'', a1), (''status'', a2),
      (''poll_url'', a3), (''model'', a4), (''duration'', a5), (''note'', a6)]"
  by (simp add: spread_def)

lemma handler_try_200:
  assumes "fst (handler_try w event) = Inr resp" and "statusCode resp = 200"
  shows "\<exists>type prompt options result cost costKey.
           fst (dispatch w type prompt options) = Inr (Generated result cost costKey)
         \<and> resp = json_response 200
             (JObj (spread [(''success'', JBool True), (''type'', type), (''cost'', cost)] result))"
  using assms
  by (auto simp: handler_try_def io_fst logUsage_returns missing_fields_response_def
      unknown_type_response_def json_response_def
      split: sum.splits if_splits dispatched.splits)
    blast+

lemma handler_post_200:
  assumes "httpMethod event = ''POST''"
    and "fst (handler w event) = Inr resp" and "statusCode resp = 200"
  shows "fst (handler_try w event) = Inr resp"
  using assms
  by (auto simp: handler_def io_fst handler_catch_def failure_response_def json_response_def
      split: sum.splits)


text \<open>
  Every 200 response to a \<^verbatim>\<open>POST\<close> request shows the type it was given and the cost
  the \<^verbatim>\<open>switch\<close> statement computed.
\<close>

lemma handler_200_cost:
  assumes "httpMethod event = ''POST''"
    and "status_of (handler w event) = Some 200"
  shows "\<exists>type prompt options result cost costKey.
           fst (dispatch w type prompt options) = Inr (Generated result cost costKey)
         \<and> body_field (handler w event) ''type'' = Some type
         \<and> body_field (handler w event) ''cost'' = Some cost"
proof -
  obtain resp where resp: "fst (handler w event) = Inr resp" and ok: "statusCode resp = 200"
    using assms(2) by (auto simp: status_of_def split: sum.splits)
  obtain type prompt options result cost costKey
    where d: "fst (dispatch w type prompt options) = Inr (Generated result cost costKey)"
      and r: "resp = json_response 200
             (JObj (spread [(''success'', JBool True), (''type'', type), (''cost'', cost)] result))"
    using handler_try_200 [OF handler_post_200 [OF assms(1) resp ok] ok] by blast
  consider (image) "type = JStr ''image''" | (video) "type = JStr ''video''"
    using dispatch_generated_type [OF d] by blast
  then have shape: "(\<exists>a b c d' e. result = JObj [(''image_url'', a), (''revised_prompt'', b),
           (''model'', c), (''size'', d'), (''quality'', e)])
      \<or> (\<exists>a b c d'. result = JObj [(''task_id'', a), (''status'', JStr ''processing''),
           (''poll_url'', b), (''model'', c), (''duration'', d'),
           (''note'', JStr ''Video is generating. Poll the task_id endpoint for completion.'')])"
  proof cases
    case image
    then have "fst (generateImage w prompt options) = Inr result"
      using dispatch_image d by blast
    then show ?thesis
      using generateImage_shape by blast
  next
    case video
    then have "fst (generateVideo w prompt options) = Inr result"
      using dispatch_video d by blast
    then show ?thesis
      using generateVideo_shape by blast
  qed
  have "body_field (handler w event) ''type'' = Some type
      \<and> body_field (handler w event) ''cost'' = Some cost"
    using shape resp r
    by (auto simp: body_field_def body_fields_def body_of_def json_response_def
        spread_image spread_video)
  then show ?thesis
    using d by blast
qed




section \<open>What the Usage Logger leaves behind\<close>

lemma image_request_not_usage:
  "\<not> suffix ''/rest/v1/creative_usage'' (url (image_request k m p s q st))"
  by (simp add: image_request_def suffix_to_prefix)

lemma video_request_not_usage:
  "\<not> suffix ''/rest/v1/creative_usage'' (url (video_request k m p d))"
  by (simp add: video_request_def suffix_to_prefix)

lemma throw_new_Error_silent: "snd (throw_new_Error w v) = []"
  by (simp add: throw_new_Error_def io_snd split: sum.splits)

lemma generateImage_effects:
  assumes "e \<in> set (snd (generateImage w prompt options))"
  shows "\<not> usage_effect e"
  using assms
  by (auto simp: generateImage_def Let_def io_snd io_fst usage_effect_def
      image_request_not_usage throw_new_Error_silent split: if_splits sum.splits)

lemma generateVideo_effects:
  assumes "e \<in> set (snd (generateVideo w prompt options))"
  shows "\<not> usage_effect e"
  using assms
  by (auto simp: generateVideo_def Let_def io_snd io_fst usage_effect_def
      video_request_not_usage throw_new_Error_silent split: if_splits sum.splits)

lemma dispatch_effects:
  assumes "e \<in> set (snd (dispatch w type prompt options))"
  shows "\<not> usage_effect e"
  using assms generateImage_effects generateVideo_effects
  by (auto simp: dispatch_def io_snd split: if_splits sum.splits)

lemma handler_try_effects_falsy:
  assumes "JSON_parse w (case ev_body event of None \<Rightarrow> ''null'' | Some s \<Rightarrow> s) = Inr b"
    and "get w b ''customer_id'' = Inr c" and "\<not> truthy c"
    and "e \<in> set (snd (handler_try w event))"
  shows "\<not> usage_effect e"
  using assms dispatch_effects
  by (auto simp: handler_try_def io_snd io_fst split: if_splits sum.splits dispatched.splits)

lemma handler_try_customer_independent:
  assumes "JSON_parse w (case ev_body event of None \<Rightarrow> ''null'' | Some s \<Rightarrow> s) = Inr b"
    and "JSON_parse w (case ev_body event' of None \<Rightarrow> ''null'' | Some s \<Rightarrow> s) = Inr b'"
    and "get w b ''customer_id'' = Inr c"
    and "get w b' ''type'' = get w b ''type''"
    and "get w b' ''prompt'' = get w b ''prompt''"
    and "get w b' ''options'' = get w b ''options''"
  shows "fst (handler_try w event') = fst (handler_try w event)"
proof -
  obtain t where t: "get w b ''type'' = Inr t"
    using get_defined [OF assms(3)] by blast
  obtain c' where c': "get w b' ''customer_id'' = Inr c'"
    using get_defined [of w b' "''type''" t] assms(4) t by auto
  show ?thesis
    using assms c'
    by (simp add: handler_try_def io_fst logUsage_returns get_default_def
        split: sum.splits dispatched.splits)
qed

text \<open>
  C10. When the \<^verbatim>\<open>customer_id\<close> of a \<^verbatim>\<open>POST\<close> request is falsy (the empty string, for
  one), the Usage Logger does not run: nothing the handler does is a request to the
  usage table, the logger's warning or the logger's error line. The response is the
  one given to any request with the same type, prompt and options, whatever its
  \<^verbatim>\<open>customer_id\<close>.
\<close>

theorem falsy_customer_id_not_logged:
  assumes "httpMethod event = ''POST''"
    and "JSON_parse w (case ev_body event of None \<Rightarrow> ''null'' | Some s \<Rightarrow> s) = Inr b"
    and "get w b ''customer_id'' = Inr c" and "\<not> truthy c"
    and "httpMethod event' = ''POST''"
    and "JSON_parse w (case ev_body event' of None \<Rightarrow> ''null'' | Some s \<Rightarrow> s) = Inr b'"
    and "get w b' ''type'' = get w b ''type''"
    and "get w b' ''prompt'' = get w b ''prompt''"
    and "get w b' ''options'' = get w b ''options''"
  shows "(\<forall>e \<in> set (snd (handler w event)). \<not> usage_effect e)
       \<and> fst (handler w event') = fst (handler w event)"
proof -
  have "\<not> usage_effect e" if "e \<in> set (snd (handler w event))" for e
    using that assms(1) handler_try_effects_falsy [OF assms(2-4)]
    by (auto simp: handler_def io_snd handler_catch_def usage_effect_def split: sum.splits)
  moreover have "fst (handler w event') = fst (handler w event)"
    using assms(1,5) handler_try_customer_independent [OF assms(2,6,3,7-9)]
    by (simp add: handler_def io_fst)
  ultimately show ?thesis
    by blast
qed

theorem falsy_customer_id_not_logged_witness:
  "httpMethod (post ''{\"type\":\"image\",\"prompt\":\"a cat\",\"customer_id\":\"\"}'') = ''POST''
   \<and> \<not> unset (env example_world ''SUPABASE_URL'')
   \<and> \<not> unset (env example_world ''SUPABASE_SERVICE_ROLE_KEY'')
   \<and> filter usage_effect (snd (handler example_world
          (post ''{\"type\":\"image\",\"prompt\":\"a cat\",\"customer_id\":\"\"}''))) = []
   \<and> status_of (handler example_world
         (post ''{\"type\":\"image\",\"prompt\":\"a cat\",\"customer_id\":\"\"}'')) = Some 200
   \<and> fst (handler example_world
         (post ''{\"type\":\"image\",\"prompt\":\"a cat\",\"customer_id\":\"c1\"}''))
     = fst (handler example_world
         (post ''{\"type\":\"image\",\"prompt\":\"a cat\",\"customer_id\":\"\"}''))
   \<and> filter usage_effect (snd (handler example_world
          (post ''{\"type\":\"image\",\"prompt\":\"a cat\",\"customer_id\":\"c1\"}''))) \<noteq> []"
proof -
  let ?ev = "post ''{\"type\":\"image\",\"prompt\":\"a cat\",\"customer_id\":\"\"}''"
  let ?ev' = "post ''{\"type\":\"image\",\"prompt\":\"a cat\",\"customer_id\":\"c1\"}''"
  let ?b = "JObj [(''type'', JStr ''image''), (''prompt'', JStr ''a cat''),
             (''customer_id'', JStr [])]"
  let ?b' = "JObj [(''type'', JStr ''image''), (''prompt'', JStr ''a cat''),
             (''customer_id'', JStr ''c1'')]"
  have h1: "httpMethod ?ev = ''POST''" and h5: "httpMethod ?ev' = ''POST''"
    by (simp_all add: post_def)
  have h2: "JSON_parse example_world (case ev_body ?ev of None \<Rightarrow> ''null'' | Some s \<Rightarrow> s)
            = Inr ?b"
    by code_simp
  have h3: "get example_world ?b ''customer_id'' = Inr (JStr [])"
    by code_simp
  have h4: "\<not> truthy (JStr [])"
    by simp
  have h6: "JSON_parse example_world (case ev_body ?ev' of None \<Rightarrow> ''null'' | Some s \<Rightarrow> s)
            = Inr ?b'"
    by code_simp
  have h7: "get example_world ?b' ''type'' = get example_world ?b ''type''"
    and h8: "get example_world ?b' ''prompt'' = get example_world ?b ''prompt''"
    and h9: "get example_world ?b' ''options'' = get example_world ?b ''options''"
    by code_simp+
  have configured: "\<not> unset (env example_world ''SUPABASE_URL'')
      \<and> \<not> unset (env example_world ''SUPABASE_SERVICE_ROLE_KEY'')"
    by code_simp
  have ok: "status_of (handler example_world ?ev) = Some 200"
    by code_simp
  have logged: "filter usage_effect (snd (handler example_world ?ev')) \<noteq> []"
    by code_simp
  show ?thesis
    using h1 configured ok logged
      falsy_customer_id_not_logged [OF h1 h2 h3 h4 h5 h6 h7 h8 h9]
    by (simp add: filter_empty_conv)
qed

section \<open>A failing data store\<close>

lemma get_same:
  assumes "TypeError w' = TypeError w"
  shows "get w' = get w"
  by (rule ext)+ (simp add: get_def assms split: jsval.splits)

lemma get_default_same:
  assumes "TypeError w' = TypeError w"
  shows "get_default w' = get_default w"
  by (rule ext)+ (simp add: get_default_def get_same [OF assms])

lemma to_string_same:
  assumes "TypeError w' = TypeError w" and "number_to_string w' = number_to_string w"
  shows "to_string w' = to_string w"
  by (rule ext)+ (simp add: to_string_def assms split: option.splits)

lemma Error_same:
  assumes "capture_stack w' = capture_stack w"
  shows "Error w' = Error w"
  by (rule ext) (simp add: Error_def assms)

lemma throw_new_Error_same:
  assumes "TypeError w' = TypeError w" and "number_to_string w' = number_to_string w"
    and "capture_stack w' = capture_stack w"
  shows "(throw_new_Error w' :: jsval \<Rightarrow> 'a io) = throw_new_Error w"
  by (rule ext)
    (simp add: throw_new_Error_def to_string_same [OF assms(1,2)] Error_same [OF assms(3)]
      split: sum.splits)

lemma call_includes_same:
  assumes "TypeError w' = TypeError w"
  shows "call_includes w' = call_includes w"
  by (rule ext)+ (simp add: call_includes_def assms split: jsval.splits)

lemma image_costKey_same:
  assumes "TypeError w' = TypeError w"
  shows "image_costKey w' = image_costKey w"
  unfolding image_costKey_def size_includes_1792_def call_includes_same [OF assms]
    get_same [OF assms]
  by (rule refl)

lemma generateImage_same:
  assumes "same_but_for_usage_log w w'"
  shows "generateImage w' prompt options = generateImage w prompt options"
proof -
  have t: "TypeError w' = TypeError w" and n: "number_to_string w' = number_to_string w"
    and c: "capture_stack w' = capture_stack w"
    and k: "env w' ''OPENAI_API_KEY'' = env w ''OPENAI_API_KEY''"
    using assms by (simp_all add: same_but_for_usage_log_def)
  have fetched: "do_fetch w' (image_request k m p s q st) = do_fetch w (image_request k m p s q st)"
    for k m p s q st
    using assms image_request_not_usage
    by (simp add: do_fetch_def same_but_for_usage_log_def)
  show ?thesis
    unfolding generateImage_def get_same [OF t] get_default_same [OF t]
      throw_new_Error_same [OF t n c] fetched Error_same [OF c] k
    by (rule refl)
qed

lemma generateVideo_same:
  assumes "same_but_for_usage_log w w'"
  shows "generateVideo w' prompt options = generateVideo w prompt options"
proof -
  have t: "TypeError w' = TypeError w" and n: "number_to_string w' = number_to_string w"
    and c: "capture_stack w' = capture_stack w"
    and k: "env w' ''RUNWAY_API_KEY'' = env w ''RUNWAY_API_KEY''"
    using assms by (simp_all add: same_but_for_usage_log_def)
  have fetched: "do_fetch w' (video_request k m p d) = do_fetch w (video_request k m p d)"
    for k m p d
    using assms video_request_not_usage
    by (simp add: do_fetch_def same_but_for_usage_log_def)
  show ?thesis
    unfolding generateVideo_def get_same [OF t] get_default_same [OF t]
      throw_new_Error_same [OF t n c] to_string_same [OF t n] fetched Error_same [OF c] k
    by (rule refl)
qed

lemma dispatch_same:
  assumes "same_but_for_usage_log w w'"
  shows "dispatch w' type prompt options = dispatch w type prompt options"
proof -
  have t: "TypeError w' = TypeError w"
    using assms by (simp add: same_but_for_usage_log_def)
  show ?thesis
    unfolding dispatch_def generateImage_same [OF assms] generateVideo_same [OF assms]
      image_costKey_same [OF t]
    by (rule refl)
qed

lemma handler_try_same:
  assumes "same_but_for_usage_log w w'"
  shows "fst (handler_try w' event) = fst (handler_try w event)"
proof -
  have t: "TypeError w' = TypeError w" and n: "number_to_string w' = number_to_string w"
    and p: "JSON_parse w' = JSON_parse w"
    using assms by (simp_all add: same_but_for_usage_log_def)
  show ?thesis
    unfolding handler_try_def dispatch_same [OF assms] get_same [OF t] get_default_same [OF t]
      to_string_same [OF t n] p
    by (simp add: io_fst logUsage_returns split: sum.splits dispatched.splits)
qed

text \<open>
  C4. \<^verbatim>\<open>logUsage\<close> returns normally in every environment and for every argument; and
  the response of the handler does not depend on the data store: in two environments
  that differ at most in the data store's configuration and in what it answers (or
  fails to answer) to a request to the usage table, the handler gives the same
  response to the same event.
\<close>

theorem usage_log_never_raises:
  assumes "same_but_for_usage_log w w'"
  shows "fst (logUsage w customerId type cost costKey) = Inr ()
       \<and> fst (logUsage w' customerId type cost costKey) = Inr ()
       \<and> fst (handler w' event) = fst (handler w event)"
proof -
  have dev: "env w' ''NODE_ENV'' = env w ''NODE_ENV''"
    using assms by (simp add: same_but_for_usage_log_def)
  show ?thesis
    using handler_try_same [OF assms, of event] dev
    by (simp add: logUsage_returns handler_def io_fst handler_catch_def failure_response_def
        split: sum.splits)
qed

theorem usage_log_never_raises_witness:
  "same_but_for_usage_log example_world example_world_unconfigured
   \<and> same_but_for_usage_log example_world example_world_store_up
   \<and> status_of (handler example_world
         (post ''{\"type\":\"image\",\"prompt\":\"a cat\",\"customer_id\":\"c1\"}'')) = Some 200
   \<and> Console_error ''Failed to log usage:''
         (Exn ''connect ECONNREFUSED'' ''FetchError: connect ECONNREFUSED'')
       \<in> set (snd (handler example_world
         (post ''{\"type\":\"image\",\"prompt\":\"a cat\",\"customer_id\":\"c1\"}'')))
   \<and> Console_warn ''Supabase not configured, skipping usage log''
       \<in> set (snd (handler example_world_unconfigured
         (post ''{\"type\":\"image\",\"prompt\":\"a cat\",\"customer_id\":\"c1\"}'')))
   \<and> fst (handler example_world_unconfigured
         (post ''{\"type\":\"image\",\"prompt\":\"a cat\",\"customer_id\":\"c1\"}''))
     = fst (handler example_world
         (post ''{\"type\":\"image\",\"prompt\":\"a cat\",\"customer_id\":\"c1\"}''))
   \<and> fst (handler example_world_store_up
         (post ''{\"type\":\"image\",\"prompt\":\"a cat\",\"customer_id\":\"c1\"}''))
     = fst (handler example_world
         (post ''{\"type\":\"image\",\"prompt\":\"a cat\",\"customer_id\":\"c1\"}''))"
proof -
  let ?ev = "post ''{\"type\":\"image\",\"prompt\":\"a cat\",\"customer_id\":\"c1\"}''"
  have h1: "same_but_for_usage_log example_world example_world_unconfigured"
    by (simp add: same_but_for_usage_log_def example_world_unconfigured_def example_world_def)
  have h2: "same_but_for_usage_log example_world example_world_store_up"
    by (simp add: same_but_for_usage_log_def example_world_store_up_def example_world_def)
  have ok: "status_of (handler example_world ?ev) = Some 200"
    by code_simp
  have outage: "Console_error ''Failed to log usage:''
         (Exn ''connect ECONNREFUSED'' ''FetchError: connect ECONNREFUSED'')
       \<in> set (snd (handler example_world ?ev))"
    by code_simp
  have warned: "Console_warn ''Supabase not configured, skipping usage log''
       \<in> set (snd (handler example_world_unconfigured ?ev))"
    by code_simp
  show ?thesis
    using h1 h2 ok outage warned
      usage_log_never_raises [OF h1, of "JStr ''c1''" "JStr ''image''" "JNum 0.04"
        "''dall-e-3-standard''" ?ev]
      usage_log_never_raises [OF h2, of "JStr ''c1''" "JStr ''image''" "JNum 0.04"
        "''dall-e-3-standard''" ?ev]
    by simp
qed

end
